theory Spec2Isabelle
  imports Complex_Main "HOL-Library.Char_ord" "HOL-Library.List_Lexorder"
begin

section \<open>Numbers and errors\<close>

text \<open>
  The script app.py computes with Python floats and with float64 columns of pandas.
  Finite values are modelled as reals (rounding is not modelled); the special values of
  a float column are kept, since the script relies on them: a missing price is NaN, and a
  numpy division by zero gives an infinity or NaN instead of raising. The scalar
  arithmetic of Python, which line 13 uses on the cells of a row, differs: it raises
  ZeroDivisionError, TypeError on \<open>None\<close>, and OverflowError when a power leaves the
  range of a float.
\<close>

datatype num = Fin real | PInf | NInf | NaN

text \<open>The exceptions the script can raise; none of them is caught in app.py.\<close>

datatype error = KeyError string | IndexError | ZeroDivisionError | TypeError | OverflowError

text \<open>The result of a Python scalar expression over floats: a float or a complex number.\<close>

datatype pyval = PyNum num | PyComplex complex

text \<open>A cell as Python reads it from a row: \<open>None\<close> or a float.\<close>

datatype pycell = PyNone | PyFloat num

fun is_nan :: "num \<Rightarrow> bool" where
  "is_nan NaN = True"
| "is_nan _ = False"

text \<open>The infinity with the sign of \<open>s\<close>; NaN when \<open>s\<close> is zero.\<close>

definition inf_of_sign :: "real \<Rightarrow> num" where
  "inf_of_sign s = (if s = 0 then NaN else if 0 < s then PInf else NInf)"

fun sign_of :: "num \<Rightarrow> real" where
  "sign_of (Fin a) = sgn a"
| "sign_of PInf = 1"
| "sign_of NInf = - 1"
| "sign_of NaN = 0"

subsection \<open>Elementwise numpy arithmetic on float64\<close>

fun np_add :: "num \<Rightarrow> num \<Rightarrow> num" where
  "np_add NaN _ = NaN"
| "np_add _ NaN = NaN"
| "np_add (Fin a) (Fin b) = Fin (a + b)"
| "np_add PInf NInf = NaN"
| "np_add NInf PInf = NaN"
| "np_add PInf _ = PInf"
| "np_add _ PInf = PInf"
| "np_add NInf _ = NInf"
| "np_add _ NInf = NInf"

fun np_neg :: "num \<Rightarrow> num" where
  "np_neg (Fin a) = Fin (- a)"
| "np_neg PInf = NInf"
| "np_neg NInf = PInf"
| "np_neg NaN = NaN"

definition np_sub :: "num \<Rightarrow> num \<Rightarrow> num" where
  "np_sub x y = np_add x (np_neg y)"

fun np_mul :: "num \<Rightarrow> num \<Rightarrow> num" where
  "np_mul NaN _ = NaN"
| "np_mul _ NaN = NaN"
| "np_mul (Fin a) (Fin b) = Fin (a * b)"
| "np_mul x y = inf_of_sign (sign_of x * sign_of y)"

text \<open>
  Division of float64 values never raises: a finite value over zero is an infinity of
  its sign, zero over zero is NaN.
\<close>

fun np_div :: "num \<Rightarrow> num \<Rightarrow> num" where
  "np_div NaN _ = NaN"
| "np_div _ NaN = NaN"
| "np_div (Fin a) (Fin b) = (if b = 0 then inf_of_sign a else Fin (a / b))"
| "np_div (Fin a) _ = Fin 0"
| "np_div x (Fin b) = (if b < 0 then np_neg x else x)"
| "np_div _ _ = NaN"

fun np_sqrt :: "num \<Rightarrow> num" where
  "np_sqrt (Fin a) = (if a < 0 then NaN else Fin (sqrt a))"
| "np_sqrt PInf = PInf"
| "np_sqrt _ = NaN"

section \<open>The functions of app.py\<close>

subsection \<open>The market data gateway (yfinance)\<close>

text \<open>
  \<open>yf.Ticker(symbol).history(period=...)["Close"]\<close> is a series of closing prices,
  oldest first, possibly empty; \<open>yf.Ticker(symbol).info.get("sector")\<close> is the sector
  name when the lookup succeeds and has one.
\<close>

record gateway =
  history_1d :: "string \<Rightarrow> real list"
  history_1y :: "string \<Rightarrow> real list"
  sector_info :: "string \<Rightarrow> string option"

text \<open>\<open>series.iloc[-1]\<close> and \<open>series.iloc[0]\<close>: IndexError on an empty series.\<close>

definition iloc_last :: "'a list \<Rightarrow> error + 'a" where
  "iloc_last xs = (if xs = [] then Inl IndexError else Inr (last xs))"

definition iloc_first :: "'a list \<Rightarrow> error + 'a" where
  "iloc_first xs = (case xs of [] \<Rightarrow> Inl IndexError | x # _ \<Rightarrow> Inr x)"

text \<open>
  \<^verbatim>\<open>
  def get_live_price(symbol):
      data = yf.Ticker(symbol).history(period="1d")
      return data["Close"].iloc[-1] if not data.empty else None
  \<close>
\<close>

definition get_live_price :: "gateway \<Rightarrow> string \<Rightarrow> error + real option" where
  "get_live_price gw symbol =
     (let data = history_1d gw symbol
      in if data \<noteq> [] then map_sum id Some (iloc_last data) else Inr None)"

text \<open>
  \<^verbatim>\<open>
  def get_sector(symbol):
      try:
          return yf.Ticker(symbol).info.get("sector", "Unknown")
      except:
          return "Unknown"
  \<close>
\<close>

definition get_sector :: "gateway \<Rightarrow> string \<Rightarrow> string" where
  "get_sector gw symbol = (case sector_info gw symbol of None \<Rightarrow> ''Unknown'' | Some s \<Rightarrow> s)"

subsection \<open>CAGR\<close>

text \<open>
  The range of a float64: a real of magnitude \<open>2^1024 - 2^970\<close> or more rounds to an
  infinity, one of magnitude \<open>2^-1075\<close> or less rounds to zero.
\<close>

definition float_overflow :: real where
  "float_overflow = 2 ^ 1024 - 2 ^ 970"

definition float_underflow :: real where
  "float_underflow = 1 / 2 ^ 1075"

definition py_float :: "real \<Rightarrow> num" where
  "py_float x =
     (if float_overflow \<le> \<bar>x\<bar> then inf_of_sign x
      else if \<bar>x\<bar> \<le> float_underflow then Fin 0
      else Fin x)"

text \<open>
  \<open>end_value / start_value\<close> on Python floats with a positive divisor: the quotient,
  an infinity when it leaves the range; no exception.
\<close>

fun py_truediv :: "num \<Rightarrow> real \<Rightarrow> num" where
  "py_truediv (Fin a) b = py_float (a / b)"
| "py_truediv x b = np_div x (Fin b)"

text \<open>
  Python's \<open>b ** e\<close> on floats, for a finite exponent, in the order of the cases of
  \<open>float_pow\<close>: \<open>b ** 0.0\<close> is 1; NaN stays NaN; an infinite base gives an infinity
  for a positive exponent and zero for a negative one; zero to a negative power raises
  ZeroDivisionError; a negative base to a non-integer power is a complex number; and a
  result that leaves the range of a float raises OverflowError (one that underflows is 0).
\<close>

definition odd_integer :: "real \<Rightarrow> bool" where
  "odd_integer e = (e = of_int \<lfloor>e\<rfloor> \<and> odd \<lfloor>e\<rfloor>)"

fun py_pow :: "num \<Rightarrow> real \<Rightarrow> error + pyval" where
  "py_pow NaN e = (if e = 0 then Inr (PyNum (Fin 1)) else Inr (PyNum NaN))"
| "py_pow PInf e =
     (if e = 0 then Inr (PyNum (Fin 1)) else if 0 < e then Inr (PyNum PInf)
      else Inr (PyNum (Fin 0)))"
| "py_pow NInf e =
     (if e = 0 then Inr (PyNum (Fin 1))
      else if 0 < e then Inr (PyNum (if odd_integer e then NInf else PInf))
      else Inr (PyNum (Fin 0)))"
| "py_pow (Fin b) e =
     (if e = 0 then Inr (PyNum (Fin 1))
      else if b = 0 then (if e < 0 then Inl ZeroDivisionError else Inr (PyNum (Fin 0)))
      else if float_overflow \<le> \<bar>b\<bar> powr e then Inl OverflowError
      else if 0 < b then Inr (PyNum (py_float (b powr e)))
      else if e = of_int \<lfloor>e\<rfloor> then
        Inr (PyNum (py_float (if odd \<lfloor>e\<rfloor> then - (\<bar>b\<bar> powr e) else \<bar>b\<bar> powr e)))
      else Inr (PyComplex (of_real (\<bar>b\<bar> powr e) * cis (pi * e))))"

fun py_sub1 :: "pyval \<Rightarrow> pyval" where
  "py_sub1 (PyNum x) = PyNum (np_sub x (Fin 1))"
| "py_sub1 (PyComplex z) = PyComplex (z - 1)"

text \<open>
  \<^verbatim>\<open>
  def calculate_cagr(start_value, end_value, years):
      return (end_value / start_value) ** (1/years) - 1 if start_value > 0 else 0
  \<close>
  The arguments are the cells of one row, Python objects. The condition is evaluated
  first, then \<open>end_value / start_value\<close>, which raises TypeError when the live price
  cell is \<open>None\<close>, then \<open>1/years\<close>, which raises ZeroDivisionError when \<open>years\<close> is
  zero, then the power. \<open>years\<close> is a number of days over 365, so \<open>1/years\<close> stays in
  the range of a float.
\<close>

definition calculate_cagr :: "real \<Rightarrow> pycell \<Rightarrow> real \<Rightarrow> error + pyval" where
  "calculate_cagr start_value end_value years =
     (if 0 < start_value then
        (case end_value of
           PyNone \<Rightarrow> Inl TypeError
         | PyFloat x \<Rightarrow>
             (let ratio = py_truediv x start_value
              in if years = 0 then Inl ZeroDivisionError
                 else (case py_pow ratio (1 / years) of
                         Inl err \<Rightarrow> Inl err
                       | Inr v \<Rightarrow> Inr (py_sub1 v))))
      else Inr (PyNum (Fin 0)))"

subsection \<open>The uploaded table\<close>

text \<open>
  \<open>pd.read_csv\<close> / \<open>pd.read_excel\<close> give a table with the columns the file has. The
  script reads four of them by name; \<open>df[name]\<close> raises KeyError when the file has no
  such column. The cells under the four names are numbers, a text and a date (a day
  number); a field of \<open>cells\<close> whose column is absent is never read.
\<close>

record holding =
  symbol :: string
  quantity :: real
  buyPrice :: real
  buyDate :: int

record upload =
  columns :: "string list"
  cells :: "holding list"

definition column :: "upload \<Rightarrow> string \<Rightarrow> (holding \<Rightarrow> 'a) \<Rightarrow> error + 'a list" where
  "column df name field =
     (if name \<in> set (columns df) then Inr (map field (cells df)) else Inl (KeyError name))"

text \<open>\<open>Series.apply(f)\<close> and \<open>df.apply(f, axis=1)\<close>: the first exception of \<open>f\<close> ends the run.\<close>

fun apply_series :: "('a \<Rightarrow> error + 'b) \<Rightarrow> 'a list \<Rightarrow> error + 'b list" where
  "apply_series f [] = Inr []"
| "apply_series f (x # xs) =
     (case f x of
        Inl e \<Rightarrow> Inl e
      | Inr y \<Rightarrow> (case apply_series f xs of Inl e \<Rightarrow> Inl e | Inr ys \<Rightarrow> Inr (y # ys)))"

text \<open>
  The LivePrice column, \<open>df["Symbol"].apply(get_live_price)\<close>. When at least one
  lookup gave a price it is a float column, and the \<open>None\<close> of a failed lookup is stored
  as NaN. When no lookup gave a price, pandas keeps the \<open>None\<close> values: the column has
  dtype object, and so have the columns computed from it.
\<close>

fun price_cell :: "real option \<Rightarrow> num" where
  "price_cell None = NaN"
| "price_cell (Some p) = Fin p"

definition object_column :: "real option list \<Rightarrow> bool" where
  "object_column live = list_all (\<lambda>l. l = None) live"

text \<open>The LivePrice cell of a row, as \<open>x["LivePrice"]\<close> gives it to \<open>calculate_cagr\<close>.\<close>

definition live_cell :: "bool \<Rightarrow> real option \<Rightarrow> pycell" where
  "live_cell obj l = (if obj then PyNone else PyFloat (price_cell l))"

text \<open>
  \<^verbatim>\<open>
  df["CurrentValue"] = df["LivePrice"] * df["Quantity"]
  df["InvestedValue"] = df["BuyPrice"] * df["Quantity"]
  df["P/L"] = df["CurrentValue"] - df["InvestedValue"]
  df["Returns %"] = (df["P/L"] / df["InvestedValue"]) * 100
  df["Years"] = ((today - pd.to_datetime(df["BuyDate"])).dt.days) / 365
  \<close>
\<close>

definition current_value :: "real option \<Rightarrow> real \<Rightarrow> num" where
  "current_value live qty = np_mul (price_cell live) (Fin qty)"

definition invested_value :: "real \<Rightarrow> real \<Rightarrow> num" where
  "invested_value bp qty = np_mul (Fin bp) (Fin qty)"

definition profit_loss :: "num \<Rightarrow> num \<Rightarrow> num" where
  "profit_loss cv iv = np_sub cv iv"

definition returns_pct :: "num \<Rightarrow> num \<Rightarrow> num" where
  "returns_pct pl iv = np_mul (np_div pl iv) (Fin 100)"

text \<open>
  Line 56 on whole columns. On float columns the division is numpy's and does not raise.
  When the LivePrice column has dtype object, P/L is an object column of NaN and the
  division is Python's, cell by cell: \<open>nan / 0.0\<close> raises ZeroDivisionError.
\<close>

definition returns_pct_column :: "bool \<Rightarrow> num list \<Rightarrow> num list \<Rightarrow> error + num list" where
  "returns_pct_column obj pl iv =
     (if obj \<and> Fin 0 \<in> set iv then Inl ZeroDivisionError else Inr (map2 returns_pct pl iv))"

definition years_held :: "int \<Rightarrow> int \<Rightarrow> real" where
  "years_held today bought = real_of_int (today - bought) / 365"

record row = holding +
  livePrice :: "real option"
  currentValue :: num
  investedValue :: num
  profitLoss :: num
  returnsPct :: num
  years :: real
  cagr :: pyval
  sector :: string

subsection \<open>Aggregates of pandas\<close>

text \<open>\<open>Series.sum()\<close>, \<open>mean()\<close> and \<open>std()\<close> skip NaN; \<open>std\<close> divides by n - 1.\<close>

definition np_sum :: "num list \<Rightarrow> num" where
  "np_sum xs = foldl np_add (Fin 0) xs"

definition nansum :: "num list \<Rightarrow> num" where
  "nansum xs = np_sum (filter (\<lambda>x. \<not> is_nan x) xs)"

definition nanmean :: "num list \<Rightarrow> num" where
  "nanmean xs =
     (let ys = filter (\<lambda>x. \<not> is_nan x) xs
      in if ys = [] then NaN else np_div (np_sum ys) (Fin (real (length ys))))"

definition nanstd :: "num list \<Rightarrow> num" where
  "nanstd xs =
     (let ys = filter (\<lambda>x. \<not> is_nan x) xs;
          n = length ys
      in if n \<le> 1 then NaN
         else (let avg = np_div (np_sum ys) (Fin (real n));
                   sq = map (\<lambda>y. np_mul (np_sub avg y) (np_sub avg y)) ys
               in np_sqrt (np_div (np_sum sq) (Fin (real (n - 1))))))"

text \<open>\<open>Series.pct_change()\<close>: NaN first, then \<open>close / previous - 1\<close>.\<close>

definition pct_change :: "real list \<Rightarrow> num list" where
  "pct_change cs =
     (case cs of
        [] \<Rightarrow> []
      | _ # rest \<Rightarrow> NaN # map2 (\<lambda>prev c. np_sub (np_div (Fin c) (Fin prev)) (Fin 1)) cs rest)"

text \<open>\<open>df.groupby("Sector")["CurrentValue"].sum()\<close>: one entry per sector, keys sorted.\<close>

definition sector_data :: "row list \<Rightarrow> (string \<times> num) list" where
  "sector_data df =
     map (\<lambda>s. (s, nansum (map currentValue (filter (\<lambda>r. sector r = s) df))))
       (sort (remdups (map sector df)))"

subsection \<open>The risk loop\<close>

text \<open>
  \<^verbatim>\<open>
  returns_data = []
  for symbol in df["Symbol"]:
      hist = yf.Ticker(symbol).history(period="1y")
      if not hist.empty:
          hist["DailyReturn"] = hist["Close"].pct_change()
          vol = hist["DailyReturn"].std() * np.sqrt(252)
          avg_return = hist["DailyReturn"].mean() * 252
          returns_data.append([symbol, vol, avg_return])
  \<close>
\<close>

fun returns_data :: "gateway \<Rightarrow> string list \<Rightarrow> (string \<times> num \<times> num) list" where
  "returns_data gw [] = []"
| "returns_data gw (s # ss) =
     (let hist = history_1y gw s
      in if hist \<noteq> [] then
           (let daily = pct_change hist;
                vol = np_mul (nanstd daily) (Fin (sqrt 252));
                avg_return = np_mul (nanmean daily) (Fin 252)
            in (s, vol, avg_return) # returns_data gw ss)
         else returns_data gw ss)"

subsection \<open>The benchmark comparison\<close>

text \<open>
  \<^verbatim>\<open>
  nifty = yf.Ticker("^NSEI").history(period="1y")["Close"]
  nifty_return = (nifty.iloc[-1] - nifty.iloc[0]) / nifty.iloc[0] * 100
  portfolio_return = (total_current - total_invested) / total_invested * 100
  \<close>
  The closes and the totals of a table with rows are numpy scalars, whose division does
  not raise. The totals of a table with no row (an upload with a header only) are the
  Python integer 0, and \<open>(0 - 0) / 0\<close> raises ZeroDivisionError.
\<close>

definition benchmark :: "gateway \<Rightarrow> bool \<Rightarrow> num \<Rightarrow> num \<Rightarrow> error + num \<times> num" where
  "benchmark gw no_rows total_invested total_current =
     (let nifty = history_1y gw ''^NSEI''
      in case iloc_last nifty of
           Inl e \<Rightarrow> Inl e
         | Inr l \<Rightarrow>
             (case iloc_first nifty of
                Inl e \<Rightarrow> Inl e
              | Inr f \<Rightarrow>
                  (let nifty_return = np_mul (np_div (np_sub (Fin l) (Fin f)) (Fin f)) (Fin 100)
                   in if no_rows then Inl ZeroDivisionError
                      else (let portfolio_return =
                                  np_mul (np_div (np_sub total_current total_invested)
                                            total_invested) (Fin 100)
                            in Inr (portfolio_return, nifty_return)))))"

subsection \<open>The script\<close>

text \<open>What the page shows, in the order the script renders it.\<close>

datatype widget =
    Title
  | UploadOk
  | SubheaderLive
  | SubheaderCagr
  | HoldingsTable "row list"
  | HeaderSummary
  | Metric string num
  | SubheaderSector
  | SectorPie "(string \<times> num) list"
  | SubheaderRisk
  | RiskTable "(string \<times> num \<times> num) list"
  | RiskScatter "(string \<times> num \<times> num) list"
  | SubheaderBenchmark
  | InfoHint

text \<open>Row \<open>i\<close> of the table after lines 50 to 65 of app.py, from its columns.\<close>

definition frame ::
  "string list \<Rightarrow> real list \<Rightarrow> real list \<Rightarrow> int list \<Rightarrow> real option list \<Rightarrow> num list \<Rightarrow>
   num list \<Rightarrow> num list \<Rightarrow> num list \<Rightarrow> real list \<Rightarrow> pyval list \<Rightarrow> string list \<Rightarrow> row list" where
  "frame syms qty bp bd live cv iv pl ret yrs cg sec =
     map (\<lambda>i. \<lparr>symbol = syms ! i, quantity = qty ! i, buyPrice = bp ! i, buyDate = bd ! i,
               livePrice = live ! i, currentValue = cv ! i, investedValue = iv ! i,
               profitLoss = pl ! i, returnsPct = ret ! i, years = yrs ! i, cagr = cg ! i,
               sector = sec ! i\<rparr>)
       [0 ..< length syms]"

text \<open>
  Lines 46 to 65: the derived columns. The result is what has been rendered so far and
  either the exception that ended the run or the enriched table.
\<close>

definition enrich :: "gateway \<Rightarrow> int \<Rightarrow> upload \<Rightarrow> widget list \<times> (error + row list)" where
  "enrich gw today df =
     (let out1 = [Title, UploadOk, SubheaderLive]
      in case column df ''Symbol'' symbol of
           Inl e \<Rightarrow> (out1, Inl e)
         | Inr syms \<Rightarrow>
      (case apply_series (get_live_price gw) syms of
           Inl e \<Rightarrow> (out1, Inl e)
         | Inr live \<Rightarrow>
      (case column df ''Quantity'' quantity of
           Inl e \<Rightarrow> (out1, Inl e)
         | Inr qty \<Rightarrow>
      (let cv = map2 current_value live qty
       in case column df ''BuyPrice'' buyPrice of
           Inl e \<Rightarrow> (out1, Inl e)
         | Inr bp \<Rightarrow>
      (let iv = map2 invested_value bp qty;
           pl = map2 profit_loss cv iv
       in case returns_pct_column (object_column live) pl iv of
           Inl e \<Rightarrow> (out1, Inl e)
         | Inr ret \<Rightarrow>
      (let out2 = out1 @ [SubheaderCagr]
       in case column df ''BuyDate'' buyDate of
           Inl e \<Rightarrow> (out2, Inl e)
         | Inr bd \<Rightarrow>
      (let yrs = map (years_held today) bd;
           prices = map (live_cell (object_column live)) live
       in case apply_series (\<lambda>(b, l, y). calculate_cagr b l y) (zip bp (zip prices yrs)) of
           Inl e \<Rightarrow> (out2, Inl e)
         | Inr cg \<Rightarrow>
      (let sec = map (get_sector gw) syms
       in (out2, Inr (frame syms qty bp bd live cv iv pl ret yrs cg sec))))))))))"

definition total_invested :: "row list \<Rightarrow> num" where
  "total_invested df = nansum (map investedValue df)"

definition total_current :: "row list \<Rightarrow> num" where
  "total_current df = nansum (map currentValue df)"

text \<open>
  The whole script: the title, then, when a file has been uploaded, lines 44 to 125, then
  the closing hint of line 130. An exception is not caught anywhere on the way: it ends
  the run, and what was rendered before it stays on the page.
\<close>

definition run :: "gateway \<Rightarrow> int \<Rightarrow> upload option \<Rightarrow> widget list \<times> error option" where
  "run gw today uploaded_file =
     (case uploaded_file of
        None \<Rightarrow> ([Title, InfoHint], None)
      | Some df0 \<Rightarrow>
          (case enrich gw today df0 of
             (out, Inl e) \<Rightarrow> (out, Some e)
           | (out, Inr df) \<Rightarrow>
               (let ti = total_invested df;
                    tc = total_current df;
                    out3 = out @ [HoldingsTable df, HeaderSummary,
                                  Metric ''Total Invested'' ti, Metric ''Current Value'' tc,
                                  Metric ''Total P/L'' (np_sub tc ti),
                                  SubheaderSector, SectorPie (sector_data df), SubheaderRisk];
                    rd = returns_data gw (map symbol df);
                    out4 = out3 @ (if rd \<noteq> [] then [RiskTable rd, RiskScatter rd] else [])
                                @ [SubheaderBenchmark]
                in case benchmark gw (df = []) ti tc of
                     Inl e \<Rightarrow> (out4, Some e)
                   | Inr (portfolio_return, nifty_return) \<Rightarrow>
                       (out4 @ [Metric ''Portfolio Return (1Y)'' portfolio_return,
                                Metric ''NIFTY 50 Return (1Y)'' nifty_return, InfoHint],
                        None))))"

subsection \<open>The risk formulas as the specification words them\<close>

text \<open>
  Daily simple returns over consecutive pairs, their mean, and their sample standard
  deviation (divisor n - 1, undefined for fewer than two returns).
\<close>

definition daily_returns :: "real list \<Rightarrow> real list" where
  "daily_returns cs = map2 (\<lambda>prev c. (c - prev) / prev) cs (tl cs)"

definition mean_of :: "real list \<Rightarrow> real" where
  "mean_of rs = sum_list rs / real (length rs)"

definition sample_stdev :: "real list \<Rightarrow> num" where
  "sample_stdev rs =
     (if length rs < 2 then NaN
      else Fin (sqrt (sum_list (map (\<lambda>r. (r - mean_of rs)\<^sup>2) rs) / real (length rs - 1))))"

subsection \<open>An example portfolio\<close>

text \<open>
  The holding of the specification's example (10 shares of X bought at 100 two years ago,
  now at 150, with the one-year closes 100, 102, 101, 105), a holding G received at
  price 0, a holding Q of quantity 0, and a holding M whose price lookup fails. G has a
  single close in its one-year history, Q and M have none.
\<close>

definition example_gateway :: gateway where
  "example_gateway =
     \<lparr>history_1d = (\<lambda>s. if s = ''X'' then [150] else if s = ''G'' then [20]
                          else if s = ''Q'' then [60] else []),
      history_1y = (\<lambda>s. if s = ''X'' then [100, 102, 101, 105] else if s = ''G'' then [7]
                          else if s = ''^NSEI'' then [200, 220] else []),
      sector_info = (\<lambda>s. if s = ''X'' \<or> s = ''Q'' then Some ''Tech''
                           else if s = ''M'' then Some ''Energy'' else None)\<rparr>"

definition example_upload :: upload where
  "example_upload =
     \<lparr>columns = [''Symbol'', ''Quantity'', ''BuyPrice'', ''BuyDate''],
      cells = [\<lparr>symbol = ''X'', quantity = 10, buyPrice = 100, buyDate = 0\<rparr>,
               \<lparr>symbol = ''G'', quantity = 5, buyPrice = 0, buyDate = 0\<rparr>,
               \<lparr>symbol = ''Q'', quantity = 0, buyPrice = 50, buyDate = 0\<rparr>,
               \<lparr>symbol = ''M'', quantity = 4, buyPrice = 25, buyDate = 0\<rparr>]\<rparr>"

text \<open>The same market with no data for the benchmark index.\<close>

definition example_gateway_no_benchmark :: gateway where
  "example_gateway_no_benchmark =
     example_gateway\<lparr>history_1y := (\<lambda>s. if s = ''^NSEI'' then [] else history_1y example_gateway s)\<rparr>"

text \<open>The enriched table of the example, two years (730 days) after the purchases.\<close>

definition example_table :: "row list" where
  "example_table = projr (snd (enrich example_gateway 730 example_upload))"

text \<open>A projection of numbers to the reals, for sums: an unavailable value counts 0.\<close>

fun fin_part :: "num \<Rightarrow> real" where
  "fin_part (Fin a) = a"
| "fin_part _ = 0"

section \<open>Properties\<close>

subsection \<open>Auxiliary facts\<close>

lemma apply_series_length: "apply_series f xs = Inr ys \<Longrightarrow> length ys = length xs"
  by (induction xs arbitrary: ys) (auto split: sum.splits)

lemma apply_series_nth:
  "apply_series f xs = Inr ys \<Longrightarrow> i < length xs \<Longrightarrow> f (xs ! i) = Inr (ys ! i)"
proof (induction xs arbitrary: ys i)
  case Nil
  then show ?case by simp
next
  case (Cons x xs)
  then show ?case by (cases i) (auto split: sum.splits)
qed

lemma get_live_price_total:
  "get_live_price gw s = Inr (if history_1d gw s = [] then None else Some (last (history_1d gw s)))"
  by (simp add: get_live_price_def iloc_last_def Let_def)

lemma apply_series_get_live_price:
  "apply_series (get_live_price gw) xs
     = Inr (map (\<lambda>s. if history_1d gw s = [] then None else Some (last (history_1d gw s))) xs)"
  by (induction xs) (simp_all add: get_live_price_total)

lemma enrich_Inr:
  assumes "enrich gw today df = (out, Inr tbl)"
  shows "out = [Title, UploadOk, SubheaderLive, SubheaderCagr]"
    and "length tbl = length (cells df)"
    and "i < length (cells df) \<Longrightarrow>
           symbol (tbl ! i) = symbol (cells df ! i) \<and>
           quantity (tbl ! i) = quantity (cells df ! i) \<and>
           buyPrice (tbl ! i) = buyPrice (cells df ! i) \<and>
           buyDate (tbl ! i) = buyDate (cells df ! i) \<and>
           get_live_price gw (symbol (tbl ! i)) = Inr (livePrice (tbl ! i)) \<and>
           currentValue (tbl ! i) = current_value (livePrice (tbl ! i)) (quantity (tbl ! i)) \<and>
           investedValue (tbl ! i) = invested_value (buyPrice (tbl ! i)) (quantity (tbl ! i)) \<and>
           profitLoss (tbl ! i) = profit_loss (currentValue (tbl ! i)) (investedValue (tbl ! i)) \<and>
           returnsPct (tbl ! i) = returns_pct (profitLoss (tbl ! i)) (investedValue (tbl ! i)) \<and>
           years (tbl ! i) = years_held today (buyDate (tbl ! i)) \<and>
           calculate_cagr (buyPrice (tbl ! i))
               (live_cell (object_column (map livePrice tbl)) (livePrice (tbl ! i)))
               (years (tbl ! i))
             = Inr (cagr (tbl ! i)) \<and>
           sector (tbl ! i) = get_sector gw (symbol (tbl ! i))"
    and "object_column (map livePrice tbl) \<Longrightarrow> Fin 0 \<notin> set (map investedValue tbl)"
proof -
  let ?n = "length (cells df)"
  let ?qty = "map quantity (cells df)"
  let ?bp = "map buyPrice (cells df)"
  let ?yrs = "map (years_held today) (map buyDate (cells df))"
  from assms obtain live cg ret where
    live: "apply_series (get_live_price gw) (map symbol (cells df)) = Inr live" and
    ret: "returns_pct_column (object_column live)
            (map2 profit_loss (map2 current_value live ?qty) (map2 invested_value ?bp ?qty))
            (map2 invested_value ?bp ?qty) = Inr ret" and
    cg: "apply_series (\<lambda>(b, l, y). calculate_cagr b l y)
           (zip ?bp (zip (map (live_cell (object_column live)) live) ?yrs)) = Inr cg" and
    out: "out = [Title, UploadOk, SubheaderLive, SubheaderCagr]" and
    tbl: "tbl = frame (map symbol (cells df)) ?qty ?bp (map buyDate (cells df)) live
             (map2 current_value live ?qty)
             (map2 invested_value ?bp ?qty)
             (map2 profit_loss (map2 current_value live ?qty) (map2 invested_value ?bp ?qty))
             ret ?yrs cg
             (map (get_sector gw) (map symbol (cells df)))"
    by (auto simp: enrich_def column_def Let_def split: sum.splits if_splits)
  from ret have obj: "\<not> (object_column live \<and> Fin 0 \<in> set (map2 invested_value ?bp ?qty))"
    and ret': "ret = map2 returns_pct
            (map2 profit_loss (map2 current_value live ?qty) (map2 invested_value ?bp ?qty))
            (map2 invested_value ?bp ?qty)"
    by (auto simp: returns_pct_column_def split: if_splits)
  show "out = [Title, UploadOk, SubheaderLive, SubheaderCagr]" by (rule out)
  show len: "length tbl = ?n" by (simp add: tbl frame_def)
  have ll: "length live = ?n" using apply_series_length[OF live] by simp
  have lc: "length cg = ?n" using apply_series_length[OF cg] ll by simp
  have lr: "length ret = ?n" using ll by (simp add: ret')
  have lpcol: "map livePrice tbl = live"
    using ll by (intro nth_equalityI) (simp_all add: tbl frame_def)
  have ivcol: "map investedValue tbl = map2 invested_value ?bp ?qty"
    by (intro nth_equalityI) (simp_all add: tbl frame_def)
  show "Fin 0 \<notin> set (map investedValue tbl)" if "object_column (map livePrice tbl)"
    using that obj unfolding lpcol ivcol by blast
  assume i: "i < ?n"
  have lp: "get_live_price gw (symbol (cells df ! i)) = Inr (live ! i)"
    using apply_series_nth[OF live, of i] i by simp
  have cgi: "calculate_cagr (buyPrice (cells df ! i)) (live_cell (object_column live) (live ! i))
        (years_held today (buyDate (cells df ! i))) = Inr (cg ! i)"
    using apply_series_nth[OF cg, of i] i ll by simp
  show "symbol (tbl ! i) = symbol (cells df ! i) \<and>
           quantity (tbl ! i) = quantity (cells df ! i) \<and>
           buyPrice (tbl ! i) = buyPrice (cells df ! i) \<and>
           buyDate (tbl ! i) = buyDate (cells df ! i) \<and>
           get_live_price gw (symbol (tbl ! i)) = Inr (livePrice (tbl ! i)) \<and>
           currentValue (tbl ! i) = current_value (livePrice (tbl ! i)) (quantity (tbl ! i)) \<and>
           investedValue (tbl ! i) = invested_value (buyPrice (tbl ! i)) (quantity (tbl ! i)) \<and>
           profitLoss (tbl ! i) = profit_loss (currentValue (tbl ! i)) (investedValue (tbl ! i)) \<and>
           returnsPct (tbl ! i) = returns_pct (profitLoss (tbl ! i)) (investedValue (tbl ! i)) \<and>
           years (tbl ! i) = years_held today (buyDate (tbl ! i)) \<and>
           calculate_cagr (buyPrice (tbl ! i))
               (live_cell (object_column (map livePrice tbl)) (livePrice (tbl ! i)))
               (years (tbl ! i))
             = Inr (cagr (tbl ! i)) \<and>
           sector (tbl ! i) = get_sector gw (symbol (tbl ! i))"
    unfolding lpcol using i ll lc lr lp cgi by (simp add: tbl frame_def ret')
qed

lemma enrich_row:
  assumes "enrich gw today df = (out, Inr tbl)" and "r \<in> set tbl"
  shows "get_live_price gw (symbol r) = Inr (livePrice r)"
    and "currentValue r = current_value (livePrice r) (quantity r)"
    and "investedValue r = invested_value (buyPrice r) (quantity r)"
    and "profitLoss r = profit_loss (currentValue r) (investedValue r)"
    and "returnsPct r = returns_pct (profitLoss r) (investedValue r)"
    and "calculate_cagr (buyPrice r) (live_cell (object_column (map livePrice tbl)) (livePrice r))
           (years r) = Inr (cagr r)"
    and "sector r = get_sector gw (symbol r)"
proof -
  from assms(2) obtain i where i: "i < length tbl" and r: "r = tbl ! i"
    by (auto simp: in_set_conv_nth)
  from i have i': "i < length (cells df)" using enrich_Inr(2)[OF assms(1)] by simp
  note f = enrich_Inr(3)[OF assms(1) i', folded r]
  show "get_live_price gw (symbol r) = Inr (livePrice r)" using f by blast
  show "currentValue r = current_value (livePrice r) (quantity r)" using f by blast
  show "investedValue r = invested_value (buyPrice r) (quantity r)" using f by blast
  show "profitLoss r = profit_loss (currentValue r) (investedValue r)" using f by blast
  show "returnsPct r = returns_pct (profitLoss r) (investedValue r)" using f by blast
  show "calculate_cagr (buyPrice r) (live_cell (object_column (map livePrice tbl)) (livePrice r))
           (years r) = Inr (cagr r)" using f by blast
  show "sector r = get_sector gw (symbol r)" using f by blast
qed

lemma float_range: "float_underflow < 1" "1 < float_overflow" "float_underflow < float_overflow"
  by (simp_all add: float_underflow_def float_overflow_def)

lemma py_float_in_range:
  "float_underflow < \<bar>x\<bar> \<Longrightarrow> \<bar>x\<bar> < float_overflow \<Longrightarrow> py_float x = Fin x"
  by (simp add: py_float_def)

lemma py_float_ge_one: "1 \<le> x \<Longrightarrow> x < float_overflow \<Longrightarrow> py_float x = Fin x"
  using float_range(1) by (auto simp: py_float_def abs_if)

lemma calculate_cagr_nonpositive:
  "start_value \<le> 0 \<Longrightarrow> calculate_cagr start_value end_value yrs = Inr (PyNum (Fin 0))"
  by (simp add: calculate_cagr_def)

lemma calculate_cagr_nan:
  "0 < start_value \<Longrightarrow> yrs \<noteq> 0 \<Longrightarrow>
     calculate_cagr start_value (PyFloat NaN) yrs = Inr (PyNum NaN)"
  by (simp add: calculate_cagr_def np_sub_def)

lemma py_truediv_ge_one:
  "1 \<le> e / s \<Longrightarrow> e / s < float_overflow \<Longrightarrow> py_truediv (Fin e) s = Fin (e / s)"
  by (simp add: py_float_ge_one)

lemma py_pow_ge_one:
  assumes "1 \<le> b" and "b < float_overflow" and "0 < x" and "x \<le> 1"
  shows "py_pow (Fin b) x = Inr (PyNum (Fin (b powr x)))"
proof -
  have lo: "1 \<le> b powr x" using assms(1,3) by (simp add: ge_one_powr_ge_zero)
  have "b powr x \<le> b powr 1" using assms(1,4) by (intro powr_mono) simp_all
  then have hi: "b powr x < float_overflow" using assms(1,2) by simp
  have ab: "\<bar>b\<bar> = b" using assms(1) by simp
  show ?thesis
    using assms(1,3) hi by (simp add: ab py_float_ge_one[OF lo hi])
qed

lemma calculate_cagr_growth:
  assumes "0 < s" and "s \<le> e" and "e / s < float_overflow" and "1 \<le> y"
  shows "calculate_cagr s (PyFloat (Fin e)) y = Inr (PyNum (Fin ((e / s) powr (1 / y) - 1)))"
proof -
  have b1: "1 \<le> e / s" using assms(1,2) by simp
  have x: "0 < 1 / y" "1 / y \<le> 1" using assms(4) by simp_all
  have t: "py_truediv (Fin e) s = Fin (e / s)"
    by (rule py_truediv_ge_one[OF b1 assms(3)])
  have p: "py_pow (Fin (e / s)) (1 / y) = Inr (PyNum (Fin ((e / s) powr (1 / y))))"
    by (rule py_pow_ge_one[OF b1 assms(3) x])
  show ?thesis
    using assms(1,4)
    by (simp add: calculate_cagr_def t p np_sub_def Let_def del: py_pow.simps py_truediv.simps)
qed

lemma example_enrich:
  "enrich example_gateway 730 example_upload =
     ([Title, UploadOk, SubheaderLive, SubheaderCagr],
      Inr [\<lparr>symbol = ''X'', quantity = 10, buyPrice = 100, buyDate = 0,
              livePrice = Some 150, currentValue = Fin 1500,
              investedValue = Fin 1000, profitLoss = Fin 500,
              returnsPct = Fin 50, years = 2,
              cagr = PyNum (Fin ((3 / 2) powr (1 / 2) - 1)),
              sector = ''Tech''\<rparr>,
           \<lparr>symbol = ''G'', quantity = 5, buyPrice = 0, buyDate = 0,
              livePrice = Some 20, currentValue = Fin 100,
              investedValue = Fin 0, profitLoss = Fin 100, returnsPct = PInf,
              years = 2, cagr = PyNum (Fin 0), sector = ''Unknown''\<rparr>,
           \<lparr>symbol = ''Q'', quantity = 0, buyPrice = 50, buyDate = 0,
              livePrice = Some 60, currentValue = Fin 0,
              investedValue = Fin 0, profitLoss = Fin 0, returnsPct = NaN,
              years = 2, cagr = PyNum (Fin ((6 / 5) powr (1 / 2) - 1)),
              sector = ''Tech''\<rparr>,
           \<lparr>symbol = ''M'', quantity = 4, buyPrice = 25, buyDate = 0,
              livePrice = None, currentValue = NaN, investedValue = Fin 100,
              profitLoss = NaN, returnsPct = NaN, years = 2,
              cagr = PyNum NaN, sector = ''Energy''\<rparr>])"
  by (simp add: enrich_def example_gateway_def example_upload_def column_def
      get_live_price_def iloc_last_def frame_def current_value_def invested_value_def
      profit_loss_def returns_pct_def returns_pct_column_def object_column_def live_cell_def
      years_held_def calculate_cagr_nonpositive calculate_cagr_nan calculate_cagr_growth
      float_overflow_def get_sector_def np_sub_def inf_of_sign_def upt_rec Let_def)

lemma example_table_rows:
  "example_table =
     [\<lparr>symbol = ''X'', quantity = 10, buyPrice = 100, buyDate = 0,
         livePrice = Some 150, currentValue = Fin 1500,
         investedValue = Fin 1000, profitLoss = Fin 500,
         returnsPct = Fin 50, years = 2,
         cagr = PyNum (Fin ((3 / 2) powr (1 / 2) - 1)),
         sector = ''Tech''\<rparr>,
      \<lparr>symbol = ''G'', quantity = 5, buyPrice = 0, buyDate = 0,
         livePrice = Some 20, currentValue = Fin 100,
         investedValue = Fin 0, profitLoss = Fin 100, returnsPct = PInf,
         years = 2, cagr = PyNum (Fin 0), sector = ''Unknown''\<rparr>,
      \<lparr>symbol = ''Q'', quantity = 0, buyPrice = 50, buyDate = 0,
         livePrice = Some 60, currentValue = Fin 0,
         investedValue = Fin 0, profitLoss = Fin 0, returnsPct = NaN,
         years = 2, cagr = PyNum (Fin ((6 / 5) powr (1 / 2) - 1)),
         sector = ''Tech''\<rparr>,
      \<lparr>symbol = ''M'', quantity = 4, buyPrice = 25, buyDate = 0,
         livePrice = None, currentValue = NaN, investedValue = Fin 100,
         profitLoss = NaN, returnsPct = NaN, years = 2,
         cagr = PyNum NaN, sector = ''Energy''\<rparr>]"
  by (simp add: example_table_def example_enrich)

lemma example_enrich_table:
  "enrich example_gateway 730 example_upload =
     ([Title, UploadOk, SubheaderLive, SubheaderCagr], Inr example_table)"
  by (simp add: example_table_def example_enrich)

lemma enrich_out:
  "fst (enrich gw today df) = [Title, UploadOk, SubheaderLive] \<or>
   fst (enrich gw today df) = [Title, UploadOk, SubheaderLive, SubheaderCagr]"
  by (simp add: enrich_def Let_def split: sum.splits)

lemma current_value_cases:
  "current_value l q = (case l of None \<Rightarrow> NaN | Some p \<Rightarrow> Fin (p * q))"
  by (cases l) (simp_all add: current_value_def)

lemma enrich_current_value:
  assumes "enrich gw today df = (out, Inr tbl)" and "r \<in> set tbl"
  shows "currentValue r = (case livePrice r of None \<Rightarrow> NaN | Some p \<Rightarrow> Fin (p * quantity r))"
  using enrich_row(2)[OF assms] by (simp add: current_value_cases)

lemma enrich_current_value_fin:
  assumes "enrich gw today df = (out, Inr tbl)"
  shows "\<forall>x\<in>set (map currentValue tbl). x = NaN \<or> (\<exists>a. x = Fin a)"
  using enrich_current_value[OF assms] by (auto split: option.splits)

lemma priced_not_object:
  assumes "enrich gw today df = (out, Inr tbl)"
    and "\<exists>h\<in>set (cells df). history_1d gw (symbol h) \<noteq> []"
  shows "\<not> object_column (map livePrice tbl)"
proof -
  from assms(2) obtain j where j: "j < length (cells df)"
    and h: "history_1d gw (symbol (cells df ! j)) \<noteq> []"
    by (auto simp: in_set_conv_nth)
  note f = enrich_Inr(3)[OF assms(1) j]
  from f have s: "symbol (tbl ! j) = symbol (cells df ! j)" by blast
  from f have g: "get_live_price gw (symbol (tbl ! j)) = Inr (livePrice (tbl ! j))" by blast
  from g h have "Some (last (history_1d gw (symbol (cells df ! j)))) = livePrice (tbl ! j)"
    unfolding s get_live_price_total by simp
  then have "livePrice (tbl ! j) \<noteq> None" by (metis option.distinct(1))
  moreover have "j < length tbl" using j enrich_Inr(2)[OF assms(1)] by simp
  ultimately show ?thesis
    by (auto simp: object_column_def list_all_length)
qed

lemma invested_value_column:
  "map2 invested_value (map buyPrice xs) (map quantity xs)
     = map (\<lambda>h. Fin (buyPrice h * quantity h)) xs"
  by (induction xs) (simp_all add: invested_value_def)

lemma get_live_price_history_1y:
  "get_live_price (gw\<lparr>history_1y := h\<rparr>) = get_live_price gw"
  by (rule ext) (simp add: get_live_price_def)

lemma get_sector_history_1y: "get_sector (gw\<lparr>history_1y := h\<rparr>) = get_sector gw"
  by (rule ext) (simp add: get_sector_def)

lemma enrich_history_1y: "enrich (gw\<lparr>history_1y := h\<rparr>) today df = enrich gw today df"
  unfolding enrich_def get_live_price_history_1y get_sector_history_1y ..

lemma example_enrich_no_benchmark:
  "enrich example_gateway_no_benchmark 730 example_upload =
     ([Title, UploadOk, SubheaderLive, SubheaderCagr], Inr example_table)"
  by (simp add: example_gateway_no_benchmark_def enrich_history_1y example_enrich_table)

subsection \<open>Sums over float columns\<close>

lemma foldl_np_add_Fin: "foldl np_add (Fin a) (map Fin rs) = Fin (a + sum_list rs)"
  by (induction rs arbitrary: a) (simp_all add: add.assoc)

lemma np_sum_Fin: "np_sum (map Fin rs) = Fin (sum_list rs)"
  by (simp add: np_sum_def foldl_np_add_Fin)

lemma foldl_nansum:
  "\<forall>x\<in>set xs. x = NaN \<or> (\<exists>a. x = Fin a) \<Longrightarrow>
     foldl np_add (Fin a) (filter (\<lambda>x. \<not> is_nan x) xs) = Fin (a + sum_list (map fin_part xs))"
proof (induction xs arbitrary: a)
  case Nil
  then show ?case by simp
next
  case (Cons x xs)
  from Cons.prems have "x = NaN \<or> (\<exists>b. x = Fin b)" by simp
  then show ?case
  proof
    assume "x = NaN"
    with Cons show ?thesis by simp
  next
    assume "\<exists>b. x = Fin b"
    then obtain b where "x = Fin b" ..
    with Cons.IH[of "a + b"] Cons.prems show ?thesis by (simp add: add.assoc)
  qed
qed

lemma nansum_fin_part:
  "\<forall>x\<in>set xs. x = NaN \<or> (\<exists>a. x = Fin a) \<Longrightarrow> nansum xs = Fin (sum_list (map fin_part xs))"
  using foldl_nansum[of xs 0] by (simp add: nansum_def np_sum_def)

lemma sum_list_single_key:
  "distinct ks \<Longrightarrow>
     sum_list (map (\<lambda>k. if a = k then c else (0::real)) ks) = (if a \<in> set ks then c else 0)"
  by (induction ks) auto

lemma sum_list_groups:
  fixes f :: "'a \<Rightarrow> real"
  assumes "distinct ks"
  shows "g ` set xs \<subseteq> set ks \<Longrightarrow>
     sum_list (map (\<lambda>k. sum_list (map f (filter (\<lambda>x. g x = k) xs))) ks) = sum_list (map f xs)"
proof (induction xs)
  case Nil
  then show ?case by simp
next
  case (Cons x xs)
  have "sum_list (map (\<lambda>k. sum_list (map f (filter (\<lambda>y. g y = k) (x # xs)))) ks)
      = sum_list (map (\<lambda>k. (if g x = k then f x else 0)
                           + sum_list (map f (filter (\<lambda>y. g y = k) xs))) ks)"
    by (intro arg_cong[where f = sum_list] map_cong) auto
  also have "\<dots> = sum_list (map (\<lambda>k. if g x = k then f x else 0) ks)
                 + sum_list (map (\<lambda>k. sum_list (map f (filter (\<lambda>y. g y = k) xs))) ks)"
    by (simp add: sum_list_addf)
  also have "\<dots> = f x + sum_list (map f xs)"
    using Cons assms by (simp add: sum_list_single_key)
  finally show ?case by simp
qed

lemma nan_filter_priced:
  "\<forall>x\<in>set xs. \<not> P x \<longrightarrow> is_nan (f x) \<Longrightarrow>
     filter (\<lambda>v. \<not> is_nan v) (map f (filter P xs)) = filter (\<lambda>v. \<not> is_nan v) (map f xs)"
  by (induction xs) auto

lemma nansum_filter_priced:
  "\<forall>x\<in>set xs. \<not> P x \<longrightarrow> is_nan (f x) \<Longrightarrow> nansum (map f (filter P xs)) = nansum (map f xs)"
  by (simp add: nansum_def nan_filter_priced)

lemma filter_not_nan_Fin: "filter (\<lambda>x. \<not> is_nan x) (map Fin rs) = map Fin rs"
  by (induction rs) auto

subsection \<open>Returns of a price series\<close>

lemma returns_data_set:
  "set (returns_data gw syms) =
     (\<lambda>s. (s, np_mul (nanstd (pct_change (history_1y gw s))) (Fin (sqrt 252)),
               np_mul (nanmean (pct_change (history_1y gw s))) (Fin 252)))
       ` {s \<in> set syms. history_1y gw s \<noteq> []}"
  by (induction syms) (auto simp: Let_def)

lemma pct_change_nonzero:
  assumes "cs \<noteq> []" and "0 \<notin> set cs"
  shows "pct_change cs = NaN # map Fin (daily_returns cs)"
proof -
  from assms(1) obtain c rest where cs: "cs = c # rest" by (cases cs) auto
  have "map2 (\<lambda>prev c. np_sub (np_div (Fin c) (Fin prev)) (Fin 1)) cs rest
      = map Fin (map2 (\<lambda>prev c. (c - prev) / prev) cs rest)"
  proof -
    have "\<And>p. p \<in> set (zip cs rest) \<Longrightarrow> fst p \<noteq> 0"
      using assms(2) by (auto dest: set_zip_leftD)
    then show ?thesis
      by (auto simp: np_sub_def diff_divide_distrib intro!: map_cong)
  qed
  then show ?thesis by (simp add: pct_change_def daily_returns_def cs)
qed

lemma nanmean_returns:
  "rs \<noteq> [] \<Longrightarrow> nanmean (NaN # map Fin rs) = Fin (mean_of rs)"
  by (simp add: nanmean_def filter_not_nan_Fin np_sum_Fin mean_of_def)

lemma nanstd_returns: "nanstd (NaN # map Fin rs) = sample_stdev rs"
proof (cases "length rs < 2")
  case True
  then show ?thesis
    by (simp add: nanstd_def sample_stdev_def filter_not_nan_Fin Let_def)
next
  case False
  let ?m = "sum_list rs / real (length rs)"
  have sq: "map (\<lambda>y. np_mul (np_sub (Fin ?m) y) (np_sub (Fin ?m) y)) (map Fin rs)
      = map Fin (map (\<lambda>r. (r - ?m)\<^sup>2) rs)"
    by (simp add: np_sub_def power2_eq_square comp_def algebra_simps)
  have nonneg: "0 \<le> sum_list (map (\<lambda>r. (r - ?m)\<^sup>2) rs)"
    by (rule sum_list_nonneg) auto
  from False have n: "\<not> length rs \<le> 1" "real (length rs) \<noteq> 0" "real (length rs - 1) \<noteq> 0"
    by auto
  have pos: "\<not> sum_list (map (\<lambda>r. (r - ?m)\<^sup>2) rs) / real (length rs - 1) < 0"
    using nonneg by (simp add: not_less)
  show ?thesis
    using False n pos
    by (simp add: nanstd_def sample_stdev_def filter_not_nan_Fin Let_def np_sum_Fin sq
        mean_of_def del: of_nat_diff map_map)
qed

lemma length_daily_returns: "length (daily_returns cs) = length cs - 1"
  by (simp add: daily_returns_def)

lemma benchmark_empty:
  "history_1y gw ''^NSEI'' = [] \<Longrightarrow> benchmark gw b ti tc = Inl IndexError"
  by (simp add: benchmark_def iloc_last_def)

subsection \<open>Runs that the object columns of pandas end\<close>

text \<open>
  When no holding is priced the LivePrice column holds \<open>None\<close>: the CAGR of the first
  row with a positive buy price raises TypeError, and before that line 56 raises
  ZeroDivisionError when a row has an invested value of 0. An upload with a header and no
  row ends with ZeroDivisionError at line 121.
\<close>

lemma no_price_at_all_raises:
  "run example_gateway 730
     (Some \<lparr>columns = [''Symbol'', ''Quantity'', ''BuyPrice'', ''BuyDate''],
            cells = [\<lparr>symbol = ''M'', quantity = 4, buyPrice = 25, buyDate = 0\<rparr>]\<rparr>)
     = ([Title, UploadOk, SubheaderLive, SubheaderCagr], Some TypeError)"
  "run example_gateway 730
     (Some \<lparr>columns = [''Symbol'', ''Quantity'', ''BuyPrice'', ''BuyDate''],
            cells = [\<lparr>symbol = ''M'', quantity = 0, buyPrice = 25, buyDate = 0\<rparr>]\<rparr>)
     = ([Title, UploadOk, SubheaderLive], Some ZeroDivisionError)"
  by (simp_all add: run_def enrich_def example_gateway_def column_def get_live_price_def
      current_value_def invested_value_def profit_loss_def
      returns_pct_column_def object_column_def live_cell_def calculate_cagr_def Let_def)

lemma header_only_upload_raises:
  "run example_gateway 730
     (Some \<lparr>columns = [''Symbol'', ''Quantity'', ''BuyPrice'', ''BuyDate''], cells = []\<rparr>)
     = ([Title, UploadOk, SubheaderLive, SubheaderCagr, HoldingsTable [], HeaderSummary,
         Metric ''Total Invested'' (Fin 0), Metric ''Current Value'' (Fin 0),
         Metric ''Total P/L'' (Fin 0), SubheaderSector, SectorPie [], SubheaderRisk,
         SubheaderBenchmark],
        Some ZeroDivisionError)"
  by (simp add: run_def enrich_def example_gateway_def column_def returns_pct_column_def
      object_column_def frame_def total_invested_def total_current_def nansum_def np_sum_def
      np_sub_def sector_data_def benchmark_def iloc_last_def iloc_first_def Let_def)

subsection \<open>The valuation of a row\<close>

text \<open>
  Claim C1 does not hold of the code. \<open>calculate_cagr\<close> guards the buy price only:
  with a positive buy price and a live price, zero years held (a purchase of the same
  day) raises ZeroDivisionError at \<open>1/years\<close> instead of returning 0, negative years
  held give the value of the formula instead of 0 (-1/3 for 100, 150 and -1 year), and a
  power outside the range of a float raises OverflowError (a price going from 1 to 10 in
  one day).
\<close>

theorem calculate_cagr_unguarded_years:
  "(0 < start_value \<longrightarrow> calculate_cagr start_value (PyFloat x) 0 = Inl ZeroDivisionError) \<and>
   calculate_cagr 100 (PyFloat (Fin 150)) (- 1) = Inr (PyNum (Fin (- (1 / 3)))) \<and>
   calculate_cagr 1 (PyFloat (Fin 10)) (1 / 365) = Inl OverflowError"
proof -
  have a: "calculate_cagr start_value (PyFloat x) 0 = Inl ZeroDivisionError" if "0 < start_value"
    using that by (simp add: calculate_cagr_def Let_def)
  have b: "calculate_cagr 100 (PyFloat (Fin 150)) (- 1) = Inr (PyNum (Fin (- (1 / 3))))"
    by (simp add: calculate_cagr_def py_float_def float_overflow_def float_underflow_def
        powr_minus np_sub_def Let_def)
  have c: "calculate_cagr 1 (PyFloat (Fin 10)) (1 / 365) = Inl OverflowError"
    by (simp add: calculate_cagr_def py_float_def float_overflow_def float_underflow_def Let_def)
  from a b c show ?thesis by blast
qed

theorem calculate_cagr_unguarded_years_witness:
  "(0::real) < 100 \<and> calculate_cagr 100 (PyFloat (Fin 150)) 0 = Inl ZeroDivisionError \<and>
   run example_gateway 0 (Some example_upload)
     = ([Title, UploadOk, SubheaderLive, SubheaderCagr], Some ZeroDivisionError)"
  using calculate_cagr_unguarded_years [of 100 "Fin 150"]
  by (simp add: run_def enrich_def example_gateway_def example_upload_def column_def
      get_live_price_def iloc_last_def returns_pct_column_def object_column_def live_cell_def
      years_held_def Let_def)

text \<open>
  Claim C7. In every row of the enriched table the current value is the live price times
  the quantity, the invested value is the buy price times the quantity, and the current
  value minus the invested value is the profit or loss, as values of the columns (no
  tolerance).
\<close>

theorem valuation_columns:
  "enrich gw today df = (out, Inr tbl) \<Longrightarrow> r \<in> set tbl \<Longrightarrow>
     currentValue r = np_mul (price_cell (livePrice r)) (Fin (quantity r)) \<and>
     investedValue r = np_mul (Fin (buyPrice r)) (Fin (quantity r)) \<and>
     np_sub (currentValue r) (investedValue r) = profitLoss r"
  using enrich_row(2,3,4)[of gw today df out tbl r]
  by (simp add: current_value_def invested_value_def profit_loss_def)

theorem valuation_columns_witness:
  "example_table ! 0 \<in> set example_table \<and>
   currentValue (example_table ! 0) = Fin (150 * 10) \<and>
   investedValue (example_table ! 0) = Fin (100 * 10) \<and>
   profitLoss (example_table ! 0) = Fin 500 \<and>
   np_sub (Fin 1500) (Fin 1000) = Fin 500"
  using valuation_columns [OF example_enrich_table, of "example_table ! 0"]
  by (simp add: example_table_rows)

lemma early_error_is_KeyError:
  assumes "\<exists>h\<in>set (cells df). history_1d gw (symbol h) \<noteq> []"
    and "fst (enrich gw today df) = [Title, UploadOk, SubheaderLive]"
  shows "\<exists>c. snd (enrich gw today df) = Inl (KeyError c)"
proof -
  have "\<not> object_column
      (map (\<lambda>s. if history_1d gw s = [] then None else Some (last (history_1d gw s)))
         (map symbol (cells df)))"
    using assms(1) by (auto simp: object_column_def list_all_iff)
  then show ?thesis
    using assms(2)
    by (auto simp: enrich_def column_def apply_series_get_live_price returns_pct_column_def
        Let_def split: sum.splits if_splits)
qed

text \<open>
  Claim C6, as amended. In every row of a table the script builds, the return percentage
  is the profit or loss divided by the invested value, times 100, in float arithmetic;
  for a positive invested value and an available profit or loss that is the real quotient
  times 100. For an invested value of 0 it is NaN when the profit or loss is 0 or
  unavailable, and plus or minus infinity when the profit or loss is positive or
  negative. When a live price was found for at least one holding, the division of
  line 56 does not raise: a run that ends before the CAGR subheader ends with a KeyError.
\<close>

theorem returns_pct_rows:
  "(enrich gw today df = (out, Inr tbl) \<and> r \<in> set tbl \<longrightarrow>
      returnsPct r = np_mul (np_div (profitLoss r) (investedValue r)) (Fin 100) \<and>
      (\<forall>i p. investedValue r = Fin i \<and> 0 < i \<and> profitLoss r = Fin p
          \<longrightarrow> returnsPct r = Fin (p / i * 100)) \<and>
      (investedValue r = Fin 0 \<longrightarrow>
         returnsPct r = (case profitLoss r of Fin p \<Rightarrow> inf_of_sign p | _ \<Rightarrow> NaN))) \<and>
   ((\<exists>h\<in>set (cells df). history_1d gw (symbol h) \<noteq> []) \<and>
    fst (enrich gw today df) = [Title, UploadOk, SubheaderLive] \<longrightarrow>
      (\<exists>c. snd (enrich gw today df) = Inl (KeyError c)))"
proof -
  have rows: "returnsPct r = np_mul (np_div (profitLoss r) (investedValue r)) (Fin 100) \<and>
      (\<forall>i p. investedValue r = Fin i \<and> 0 < i \<and> profitLoss r = Fin p
          \<longrightarrow> returnsPct r = Fin (p / i * 100)) \<and>
      (investedValue r = Fin 0 \<longrightarrow>
         returnsPct r = (case profitLoss r of Fin p \<Rightarrow> inf_of_sign p | _ \<Rightarrow> NaN))"
    if e: "enrich gw today df = (out, Inr tbl)" and r: "r \<in> set tbl"
  proof -
    have pl: "profitLoss r = NaN \<or> (\<exists>p. profitLoss r = Fin p)"
      using enrich_row(2,3,4)[OF e r]
      by (cases "livePrice r")
        (simp_all add: current_value_def invested_value_def profit_loss_def np_sub_def)
    have ret: "returnsPct r = np_mul (np_div (profitLoss r) (investedValue r)) (Fin 100)"
      using enrich_row(5)[OF e r] by (simp add: returns_pct_def)
    show ?thesis using pl ret by (auto simp: inf_of_sign_def)
  qed
  from rows early_error_is_KeyError[of df gw today] show ?thesis by blast
qed

theorem returns_pct_rows_witness:
  "example_table ! 0 \<in> set example_table \<and> example_table ! 1 \<in> set example_table \<and>
   example_table ! 2 \<in> set example_table \<and>
   map investedValue example_table = [Fin 1000, Fin 0, Fin 0, Fin 100] \<and>
   map profitLoss example_table = [Fin 500, Fin 100, Fin 0, NaN] \<and>
   returnsPct (example_table ! 0) = Fin (500 / 1000 * 100) \<and>
   returnsPct (example_table ! 1) = inf_of_sign 100 \<and>
   returnsPct (example_table ! 2) = inf_of_sign 0 \<and>
   history_1d example_gateway ''X'' \<noteq> [] \<and>
   enrich example_gateway 730 (example_upload\<lparr>columns := [''Symbol'', ''Quantity'']\<rparr>)
     = ([Title, UploadOk, SubheaderLive], Inl (KeyError ''BuyPrice''))"
  using returns_pct_rows [of example_gateway 730 example_upload
        "[Title, UploadOk, SubheaderLive, SubheaderCagr]" example_table "example_table ! 0"]
    returns_pct_rows [of example_gateway 730 example_upload
        "[Title, UploadOk, SubheaderLive, SubheaderCagr]" example_table "example_table ! 1"]
    returns_pct_rows [of example_gateway 730 example_upload
        "[Title, UploadOk, SubheaderLive, SubheaderCagr]" example_table "example_table ! 2"]
    returns_pct_rows [of example_gateway 730
        "example_upload\<lparr>columns := [''Symbol'', ''Quantity'']\<rparr>"]
  by (simp add: example_enrich_table example_table_rows inf_of_sign_def
      enrich_def column_def get_live_price_def iloc_last_def example_upload_def
      example_gateway_def Let_def)

text \<open>
  The claim as stated fails when the invested value is 0 and the profit is not: 5 shares
  received at price 0 and now at 20 have a return percentage of plus infinity, which is
  a number of the column and not NaN.
\<close>

theorem returns_pct_infinite_counterexample:
  "investedValue (example_table ! 1) = Fin 0 \<and>
   profitLoss (example_table ! 1) = Fin 100 \<and>
   returnsPct (example_table ! 1) = PInf \<and>
   \<not> is_nan (returnsPct (example_table ! 1))"
  by (simp add: example_table_rows)

text \<open>
  Claim C2, as amended. When a live price was found for at least one holding and the
  table is built, a holding whose lookup fails is a row of the table with no live price;
  its current value, profit or loss and return percentage are NaN; its CAGR is NaN when
  the buy price is positive and 0 when it is not. The aggregates neither flag the row nor
  leave its sector out: the total current value is the sum over the priced rows, and the
  sector of the row has an entry in the sector allocation, the sum over the priced rows
  of that sector, which is 0 when there is none.
\<close>

theorem unpriced_row:
  assumes "enrich gw today df = (out, Inr tbl)" and "i < length (cells df)"
    and "history_1d gw (symbol (cells df ! i)) = []"
    and "\<exists>h\<in>set (cells df). history_1d gw (symbol h) \<noteq> []"
  shows "i < length tbl \<and> symbol (tbl ! i) = symbol (cells df ! i) \<and>
     livePrice (tbl ! i) = None \<and> currentValue (tbl ! i) = NaN \<and>
     profitLoss (tbl ! i) = NaN \<and> returnsPct (tbl ! i) = NaN \<and>
     cagr (tbl ! i) = (if 0 < buyPrice (tbl ! i) then PyNum NaN else PyNum (Fin 0)) \<and>
     total_current tbl = total_current (filter (\<lambda>x. livePrice x \<noteq> None) tbl) \<and>
     (sector (tbl ! i),
      total_current (filter (\<lambda>x. livePrice x \<noteq> None)
        (filter (\<lambda>x. sector x = sector (tbl ! i)) tbl)))
        \<in> set (sector_data tbl)"
proof -
  let ?r = "tbl ! i"
  have len: "i < length tbl" using assms(2) enrich_Inr(2)[OF assms(1)] by simp
  then have r: "?r \<in> set tbl" by simp
  have sym: "symbol ?r = symbol (cells df ! i)"
    using enrich_Inr(3)[OF assms(1,2)] by blast
  have lp: "livePrice ?r = None"
    using enrich_row(1)[OF assms(1) r] assms(3) sym by (simp add: get_live_price_def)
  have cv: "currentValue ?r = NaN"
    using enrich_row(2)[OF assms(1) r] lp by (simp add: current_value_def)
  have pl: "profitLoss ?r = NaN"
    using enrich_row(4)[OF assms(1) r] cv by (simp add: profit_loss_def np_sub_def)
  have ret: "returnsPct ?r = NaN"
    using enrich_row(5)[OF assms(1) r] pl by (simp add: returns_pct_def)
  have float: "\<not> object_column (map livePrice tbl)"
    by (rule priced_not_object[OF assms(1,4)])
  have cg: "cagr ?r = (if 0 < buyPrice ?r then PyNum NaN else PyNum (Fin 0))"
    using enrich_row(6)[OF assms(1) r] lp float
    by (auto simp: calculate_cagr_def live_cell_def np_sub_def Let_def split: if_splits)
  have nan: "\<forall>x\<in>set tbl. \<not> livePrice x \<noteq> None \<longrightarrow> is_nan (currentValue x)"
    using enrich_current_value[OF assms(1)] by auto
  have tot: "total_current tbl = total_current (filter (\<lambda>x. livePrice x \<noteq> None) tbl)"
    unfolding total_current_def using nansum_filter_priced[OF nan] by simp
  have nan': "\<forall>x\<in>set (filter (\<lambda>x. sector x = sector ?r) tbl).
       \<not> livePrice x \<noteq> None \<longrightarrow> is_nan (currentValue x)"
    using nan by simp
  have sec: "(sector ?r, total_current (filter (\<lambda>x. livePrice x \<noteq> None)
        (filter (\<lambda>x. sector x = sector ?r) tbl))) \<in> set (sector_data tbl)"
    unfolding total_current_def nansum_filter_priced[OF nan'] sector_data_def
    using r by auto
  from len sym lp cv pl ret cg tot sec show ?thesis by blast
qed

theorem unpriced_row_witness:
  "(3::nat) < length (cells example_upload) \<and>
   history_1d example_gateway (symbol (cells example_upload ! 3)) = [] \<and>
   history_1d example_gateway (symbol (cells example_upload ! 0)) \<noteq> [] \<and>
   symbol (example_table ! 3) = ''M'' \<and>
   livePrice (example_table ! 3) = None \<and> currentValue (example_table ! 3) = NaN \<and>
   profitLoss (example_table ! 3) = NaN \<and> returnsPct (example_table ! 3) = NaN \<and>
   cagr (example_table ! 3) = PyNum NaN \<and>
   total_current example_table = total_current (take 3 example_table) \<and>
   (''Energy'', total_current []) \<in> set (sector_data example_table)"
proof -
  have p: "\<exists>h\<in>set (cells example_upload). history_1d example_gateway (symbol h) \<noteq> []"
    by (simp add: example_upload_def example_gateway_def)
  have i: "(3::nat) < length (cells example_upload)" by (simp add: example_upload_def)
  have u: "history_1d example_gateway (symbol (cells example_upload ! 3)) = []"
    by (simp add: example_upload_def example_gateway_def)
  show ?thesis
    using unpriced_row [OF example_enrich_table i u p]
    by (simp add: example_table_rows example_gateway_def example_upload_def)
qed

text \<open>
  The claim as stated fails: the sector Energy, whose only holding has no price, is in
  the allocation with the value 0, and the CAGR of an unpriced row bought at price 0 is
  computed as 0.
\<close>

theorem unpriced_row_counted_zero_counterexample:
  "livePrice (example_table ! 3) = None \<and> sector (example_table ! 3) = ''Energy'' \<and>
   sector_data example_table = [(''Energy'', Fin 0), (''Tech'', Fin 1500), (''Unknown'', Fin 100)] \<and>
   total_current example_table = Fin 1600 \<and>
   calculate_cagr 0 (PyFloat NaN) 2 = Inr (PyNum (Fin 0))"
  by (simp add: sector_data_def example_table_rows nansum_def np_sum_def total_current_def
      calculate_cagr_def)

subsection \<open>The aggregates\<close>

text \<open>
  Claim C8. For every table the script builds, whatever the sectors of its rows, the sum
  of the values of the sector allocation is the total current value: grouping by sector
  and summing loses nothing and counts nothing twice. (Finite floats are reals here, so
  the tolerance of the claim is 0.)
\<close>

theorem sector_allocation_sums_to_total:
  assumes "enrich gw today df = (out, Inr tbl)"
  shows "np_sum (map snd (sector_data tbl)) = total_current tbl"
proof -
  let ?v = "\<lambda>r. fin_part (currentValue r)"
  let ?ks = "sort (remdups (map sector tbl))"
  have fin: "\<forall>x\<in>set (map currentValue tbl). x = NaN \<or> (\<exists>a. x = Fin a)"
    by (rule enrich_current_value_fin[OF assms])
  have grp: "nansum (map currentValue (filter (\<lambda>r. sector r = s) tbl))
      = Fin (sum_list (map ?v (filter (\<lambda>r. sector r = s) tbl)))" for s
    using fin by (subst nansum_fin_part) (auto simp: comp_def)
  have "map snd (sector_data tbl)
      = map Fin (map (\<lambda>s. sum_list (map ?v (filter (\<lambda>r. sector r = s) tbl))) ?ks)"
    by (simp add: sector_data_def grp comp_def)
  then have "np_sum (map snd (sector_data tbl))
      = Fin (sum_list (map (\<lambda>s. sum_list (map ?v (filter (\<lambda>r. sector r = s) tbl))) ?ks))"
    by (simp only: np_sum_Fin)
  also have "\<dots> = Fin (sum_list (map ?v tbl))"
    by (subst sum_list_groups) auto
  also have "\<dots> = total_current tbl"
    using nansum_fin_part[OF fin] by (simp add: total_current_def comp_def)
  finally show ?thesis .
qed

theorem sector_allocation_sums_to_total_witness:
  "sector_data example_table = [(''Energy'', Fin 0), (''Tech'', Fin 1500), (''Unknown'', Fin 100)] \<and>
   np_sum [Fin 0, Fin 1500, Fin 100] = Fin 1600 \<and>
   total_current example_table = Fin 1600"
  using sector_allocation_sums_to_total [OF example_enrich_table]
  by (simp add: sector_data_def example_table_rows nansum_def np_sum_def total_current_def)

subsection \<open>The risk table\<close>

text \<open>
  Claim C3, as amended. A symbol whose one-year history is empty is skipped and is not in
  the risk table; a symbol of the portfolio with exactly one close is in the risk table,
  with NaN for both the volatility and the annual return. Nothing is raised in either
  case.
\<close>

theorem empty_history_skipped:
  "(history_1y gw s = [] \<longrightarrow> s \<notin> fst ` set (returns_data gw syms)) \<and>
   (s \<in> set syms \<and> length (history_1y gw s) = 1 \<longrightarrow> (s, NaN, NaN) \<in> set (returns_data gw syms))"
proof -
  have one: "(s, NaN, NaN) \<in> set (returns_data gw syms)"
    if "s \<in> set syms" and "length (history_1y gw s) = 1"
  proof -
    from that(2) obtain c where c: "history_1y gw s = [c]"
      by (cases "history_1y gw s") auto
    then have "pct_change (history_1y gw s) = [NaN]" by (simp add: pct_change_def)
    then show ?thesis
      using that(1) c by (force simp: returns_data_set nanstd_def nanmean_def)
  qed
  then show ?thesis by (auto simp: returns_data_set)
qed

theorem empty_history_skipped_witness:
  "history_1y example_gateway ''Q'' = [] \<and>
   ''Q'' \<notin> fst ` set (returns_data example_gateway [''X'', ''G'', ''Q'', ''M'']) \<and>
   length (history_1y example_gateway ''G'') = 1 \<and>
   (''G'', NaN, NaN) \<in> set (returns_data example_gateway [''X'', ''G'', ''Q'', ''M''])"
proof -
  have q: "history_1y example_gateway ''Q'' = []" and g: "history_1y example_gateway ''G'' = [7]"
    by (simp_all add: example_gateway_def)
  show ?thesis
    using empty_history_skipped [of example_gateway "''Q''" "[''X'', ''G'', ''Q'', ''M'']"]
      empty_history_skipped [of example_gateway "''G''" "[''X'', ''G'', ''Q'', ''M'']"]
    by (simp add: q g)
qed

text \<open>
  The claim as stated fails for a history of one close: the check of the loop is on
  emptiness, so the symbol G gets a row.
\<close>

theorem one_point_history_counterexample:
  "length (history_1y example_gateway ''G'') < 2 \<and>
   returns_data example_gateway [''G''] = [(''G'', NaN, NaN)]"
  by (simp add: example_gateway_def pct_change_def nanstd_def nanmean_def)

text \<open>
  Claim C4. For every symbol of the portfolio with at least two closes, none of them 0,
  the risk record is computed from the daily simple returns
  \<open>(close - previous) / previous\<close> over the consecutive pairs, one fewer than the closes:
  the volatility is their sample standard deviation times \<open>sqrt 252\<close> and the annual
  return is their mean times 252. The four closes 100, 102, 101, 105 give three returns.
\<close>

theorem risk_record_formulas:
  assumes "2 \<le> length (history_1y gw s)" and "0 \<notin> set (history_1y gw s)" and "s \<in> set syms"
  shows "length (daily_returns (history_1y gw s)) = length (history_1y gw s) - 1 \<and>
     (s, np_mul (sample_stdev (daily_returns (history_1y gw s))) (Fin (sqrt 252)),
         Fin (mean_of (daily_returns (history_1y gw s)) * 252)) \<in> set (returns_data gw syms) \<and>
     (\<forall>v a. (s, v, a) \<in> set (returns_data gw syms) \<longrightarrow>
        v = np_mul (sample_stdev (daily_returns (history_1y gw s))) (Fin (sqrt 252)) \<and>
        a = Fin (mean_of (daily_returns (history_1y gw s)) * 252))"
proof -
  let ?cs = "history_1y gw s"
  from assms(1) have ne: "?cs \<noteq> []" by auto
  have rs: "daily_returns ?cs \<noteq> []"
    using assms(1) length_daily_returns[of ?cs] by (cases "daily_returns ?cs") auto
  have pc: "pct_change ?cs = NaN # map Fin (daily_returns ?cs)"
    by (rule pct_change_nonzero[OF ne assms(2)])
  have vol: "np_mul (nanstd (pct_change ?cs)) (Fin (sqrt 252))
      = np_mul (sample_stdev (daily_returns ?cs)) (Fin (sqrt 252))"
    by (simp only: pc nanstd_returns)
  have avg: "np_mul (nanmean (pct_change ?cs)) (Fin 252) = Fin (mean_of (daily_returns ?cs) * 252)"
    by (simp add: pc nanmean_returns[OF rs])
  show ?thesis
    using ne assms(3) vol avg by (auto simp: returns_data_set length_daily_returns)
qed

theorem risk_record_formulas_witness:
  "2 \<le> length (history_1y example_gateway ''X'') \<and>
   0 \<notin> set (history_1y example_gateway ''X'') \<and>
   history_1y example_gateway ''X'' = [100, 102, 101, 105] \<and>
   daily_returns [100, 102, 101, 105] = [2 / 100, - 1 / 102, 4 / 101] \<and>
   length (daily_returns [100, 102, 101, 105]) = 3 \<and>
   (''X'', np_mul (sample_stdev (daily_returns [100, 102, 101, 105])) (Fin (sqrt 252)),
           Fin (mean_of (daily_returns [100, 102, 101, 105]) * 252))
     \<in> set (returns_data example_gateway [''X'', ''G'', ''Q'', ''M''])"
proof -
  have h: "history_1y example_gateway ''X'' = [100, 102, 101, 105]"
    by (simp add: example_gateway_def)
  have d: "daily_returns [100, 102, 101, 105] = [2 / 100, - 1 / 102, 4 / 101]"
    by (simp add: daily_returns_def)
  show ?thesis
    using risk_record_formulas [of example_gateway "''X''" "[''X'', ''G'', ''Q'', ''M'']"]
    unfolding h by (simp add: d)
qed

subsection \<open>Runs that end in an exception\<close>

text \<open>
  Claim C5 does not hold of the code. With an empty benchmark series the read
  \<open>nifty.iloc[-1]\<close> raises IndexError, which nothing catches: every run on an uploaded
  file ends in an exception and never reaches the closing hint; when the table could be
  built, the sections before the comparison have been rendered and the run ends with
  IndexError right after the subheader of the comparison.
\<close>

theorem empty_benchmark_aborts_run:
  assumes "history_1y gw ''^NSEI'' = []"
  shows "snd (run gw today (Some df)) \<noteq> None \<and>
     InfoHint \<notin> set (fst (run gw today (Some df))) \<and>
     (\<forall>out tbl. enrich gw today df = (out, Inr tbl) \<longrightarrow>
        run gw today (Some df) =
          (out @ [HoldingsTable tbl, HeaderSummary,
                  Metric ''Total Invested'' (total_invested tbl),
                  Metric ''Current Value'' (total_current tbl),
                  Metric ''Total P/L'' (np_sub (total_current tbl) (total_invested tbl)),
                  SubheaderSector, SectorPie (sector_data tbl), SubheaderRisk]
               @ (if returns_data gw (map symbol tbl) \<noteq> []
                  then [RiskTable (returns_data gw (map symbol tbl)),
                        RiskScatter (returns_data gw (map symbol tbl))]
                  else [])
               @ [SubheaderBenchmark],
           Some IndexError))"
proof -
  obtain out res where e: "enrich gw today df = (out, res)" by (cases "enrich gw today df")
  have out: "InfoHint \<notin> set out" using enrich_out[of gw today df] e by auto
  show ?thesis
  proof (cases res)
    case (Inl err)
    with e out show ?thesis by (simp add: run_def)
  next
    case (Inr tbl)
    with e out show ?thesis
      by (simp add: run_def Let_def benchmark_empty[OF assms])
  qed
qed

theorem empty_benchmark_aborts_run_witness:
  "history_1y example_gateway_no_benchmark ''^NSEI'' = [] \<and>
   snd (run example_gateway_no_benchmark 730 (Some example_upload)) = Some IndexError \<and>
   InfoHint \<notin> set (fst (run example_gateway_no_benchmark 730 (Some example_upload))) \<and>
   HoldingsTable example_table
     \<in> set (fst (run example_gateway_no_benchmark 730 (Some example_upload))) \<and>
   last (fst (run example_gateway_no_benchmark 730 (Some example_upload))) = SubheaderBenchmark"
proof -
  have h: "history_1y example_gateway_no_benchmark ''^NSEI'' = []"
    by (simp add: example_gateway_no_benchmark_def)
  from empty_benchmark_aborts_run [OF h, of 730 example_upload] example_enrich_no_benchmark
  have "run example_gateway_no_benchmark 730 (Some example_upload) =
          ([Title, UploadOk, SubheaderLive, SubheaderCagr]
             @ [HoldingsTable example_table, HeaderSummary,
                  Metric ''Total Invested'' (total_invested example_table),
                  Metric ''Current Value'' (total_current example_table),
                  Metric ''Total P/L'' (np_sub (total_current example_table) (total_invested example_table)),
                  SubheaderSector, SectorPie (sector_data example_table), SubheaderRisk]
               @ (if returns_data example_gateway_no_benchmark (map symbol example_table) \<noteq> []
                  then [RiskTable (returns_data example_gateway_no_benchmark (map symbol example_table)),
                        RiskScatter (returns_data example_gateway_no_benchmark (map symbol example_table))]
                  else [])
               @ [SubheaderBenchmark],
           Some IndexError)"
    by blast
  with h show ?thesis by simp
qed

text \<open>
  Claim C9, as amended. When the uploaded file lacks one of the columns Symbol, Quantity,
  BuyPrice, BuyDate, the run ends with an exception and nothing of the analysis has been
  rendered: no table, no metric, no chart, only the title, the upload notice and
  subheaders. When a live price was found for at least one holding, or no holding has an
  invested value of 0, the exception is the KeyError of a missing required column (the
  schema error of the script).
\<close>

theorem missing_column_aborts:
  assumes "c \<in> {''Symbol'', ''Quantity'', ''BuyPrice'', ''BuyDate''}"
    and "c \<notin> set (columns df)"
  shows "snd (run gw today (Some df)) \<noteq> None \<and>
     set (fst (run gw today (Some df))) \<subseteq> {Title, UploadOk, SubheaderLive, SubheaderCagr} \<and>
     ((\<exists>h\<in>set (cells df). history_1d gw (symbol h) \<noteq> []) \<or>
      (\<forall>h\<in>set (cells df). buyPrice h * quantity h \<noteq> 0) \<longrightarrow>
      (\<exists>c' \<in> {''Symbol'', ''Quantity'', ''BuyPrice'', ''BuyDate''}.
         c' \<notin> set (columns df) \<and> snd (run gw today (Some df)) = Some (KeyError c')))"
proof -
  let ?live = "map (\<lambda>s. if history_1d gw s = [] then None else Some (last (history_1d gw s)))
                 (map symbol (cells df))"
  let ?iv = "map2 invested_value (map buyPrice (cells df)) (map quantity (cells df))"
  have ok: "\<not> (object_column ?live \<and> Fin 0 \<in> set ?iv)"
    if "(\<exists>h\<in>set (cells df). history_1d gw (symbol h) \<noteq> []) \<or>
        (\<forall>h\<in>set (cells df). buyPrice h * quantity h \<noteq> 0)"
    using that
  proof
    assume "\<exists>h\<in>set (cells df). history_1d gw (symbol h) \<noteq> []"
    then have "\<not> object_column ?live"
      by (auto simp: object_column_def list_all_iff)
    then show ?thesis by simp
  next
    assume nz: "\<forall>h\<in>set (cells df). buyPrice h * quantity h \<noteq> 0"
    have "?iv = map (\<lambda>h. Fin (buyPrice h * quantity h)) (cells df)"
      by (rule invested_value_column)
    with nz have "Fin 0 \<notin> set ?iv" by auto
    then show ?thesis by simp
  qed
  consider (sym) "''Symbol'' \<notin> set (columns df)"
    | (qty) "''Symbol'' \<in> set (columns df)" "''Quantity'' \<notin> set (columns df)"
    | (bp) "''Symbol'' \<in> set (columns df)" "''Quantity'' \<in> set (columns df)"
        "''BuyPrice'' \<notin> set (columns df)"
    | (bd) "''Symbol'' \<in> set (columns df)" "''Quantity'' \<in> set (columns df)"
        "''BuyPrice'' \<in> set (columns df)" "''BuyDate'' \<notin> set (columns df)"
    using assms by auto
  then show ?thesis
  proof cases
    case sym
    then have "run gw today (Some df) = ([Title, UploadOk, SubheaderLive], Some (KeyError ''Symbol''))"
      by (simp add: run_def enrich_def column_def)
    with sym show ?thesis by auto
  next
    case qty
    then have "run gw today (Some df) = ([Title, UploadOk, SubheaderLive], Some (KeyError ''Quantity''))"
      by (simp add: run_def enrich_def column_def apply_series_get_live_price)
    with qty show ?thesis by auto
  next
    case bp
    then have "run gw today (Some df) = ([Title, UploadOk, SubheaderLive], Some (KeyError ''BuyPrice''))"
      by (simp add: run_def enrich_def column_def apply_series_get_live_price Let_def)
    with bp show ?thesis by auto
  next
    case bd
    show ?thesis
    proof (cases "object_column ?live \<and> Fin 0 \<in> set ?iv")
      case True
      with bd have "run gw today (Some df) = ([Title, UploadOk, SubheaderLive], Some ZeroDivisionError)"
        by (simp add: run_def enrich_def column_def apply_series_get_live_price Let_def
            returns_pct_column_def)
      with True ok show ?thesis by auto
    next
      case False
      with bd have "run gw today (Some df)
          = ([Title, UploadOk, SubheaderLive, SubheaderCagr], Some (KeyError ''BuyDate''))"
        by (simp add: run_def enrich_def column_def apply_series_get_live_price Let_def
            returns_pct_column_def)
      with bd show ?thesis by auto
    qed
  qed
qed

theorem missing_column_aborts_witness:
  "''BuyDate'' \<notin> set (columns (example_upload\<lparr>columns := [''Symbol'', ''Quantity'', ''BuyPrice'']\<rparr>)) \<and>
   history_1d example_gateway ''X'' \<noteq> [] \<and>
   run example_gateway 730 (Some (example_upload\<lparr>columns := [''Symbol'', ''Quantity'', ''BuyPrice'']\<rparr>))
     = ([Title, UploadOk, SubheaderLive, SubheaderCagr], Some (KeyError ''BuyDate''))"
  using missing_column_aborts [of "''BuyDate''"
      "example_upload\<lparr>columns := [''Symbol'', ''Quantity'', ''BuyPrice'']\<rparr>" example_gateway 730]
  by (simp add: run_def enrich_def column_def get_live_price_def iloc_last_def Let_def
      returns_pct_column_def object_column_def example_upload_def example_gateway_def)

text \<open>
  The claim as stated fails on the kind of the error: the script has no check of the
  columns, so an earlier line can raise first. Without the column BuyDate, with no
  holding priced and a quantity of 0, the run ends with the ZeroDivisionError of line 56.
\<close>

theorem missing_column_other_error_counterexample:
  "''BuyDate'' \<notin> set [''Symbol'', ''Quantity'', ''BuyPrice''] \<and>
   run example_gateway 730
     (Some \<lparr>columns = [''Symbol'', ''Quantity'', ''BuyPrice''],
            cells = [\<lparr>symbol = ''M'', quantity = 0, buyPrice = 25, buyDate = 0\<rparr>]\<rparr>)
     = ([Title, UploadOk, SubheaderLive], Some ZeroDivisionError)"
  by (simp add: run_def enrich_def example_gateway_def column_def get_live_price_def
      current_value_def invested_value_def profit_loss_def
      returns_pct_column_def object_column_def Let_def)

subsection \<open>The live price lookup\<close>

text \<open>
  Claim C10. For every symbol whose one-day history is empty, \<open>get_live_price\<close> returns
  \<open>None\<close> and does not raise: the read of the last element is behind the emptiness check.
\<close>

theorem get_live_price_empty_is_None:
  "history_1d gw s = [] \<Longrightarrow> get_live_price gw s = Inr None"
  by (simp add: get_live_price_def)

theorem get_live_price_empty_is_None_witness:
  "history_1d example_gateway ''M'' = [] \<and> get_live_price example_gateway ''M'' = Inr None"
  using get_live_price_empty_is_None [of example_gateway "''M''"]
  by (simp add: example_gateway_def)

end
